theory Spec2Isabelle
  imports Main "HOL-Library.Sublist"
begin

section \<open>Data model\<close>

text \<open>
  The browser extension (the agent) of browser-control-mcp connects to the MCP server over
  WebSockets, checks the signature of every inbound frame, runs the requested browser
  operation and sends a signed resource back. This theory embeds the extension's client
  (\<^verbatim>\<open>initWsClient\<close> and the functions nested in it), the message types of
  \<^verbatim>\<open>common/tools.ts\<close> and the \<^verbatim>\<open>get-tab-web-content\<close> tool of
  \<^verbatim>\<open>mcp-server/server.ts\<close>.

  A JavaScript string is written as a HOL \<^typ>\<open>string\<close>: one character per code unit
  (code units above 255 are outside the model). A JavaScript number that the code uses as a
  tab id, an offset or a count is an \<^typ>\<open>int\<close>; an index or a length is a \<^typ>\<open>nat\<close>.
\<close>

type_synonym correlation_id = string

text \<open>\<^verbatim>\<open>ServerMessageRequest = ServerMessage & { correlationId: string }\<close> (tools.ts):
  the eight command kinds, each with its correlation id first. An optional field is an
  \<^typ>\<open>'a option\<close>.\<close>

datatype ServerMessageRequest =
    Open_tab correlation_id string
  | Close_tabs correlation_id "int list"
  | Get_tab_list correlation_id
  | Get_browser_recent_history correlation_id "string option"
  | Get_tab_content correlation_id int "int option"
  | Reorder_tabs correlation_id "int list"
  | Find_highlight correlation_id int string
  | Group_tabs correlation_id "int list" bool string string

text \<open>What \<^verbatim>\<open>JSON.parse\<close> can give as the payload of a frame: a request of the declared
  type; any other value that is not null, which has none of the handled \<^verbatim>\<open>cmd\<close> (it is
  written as its JSON text); or null, or no payload at all.\<close>

datatype payload = Request ServerMessageRequest | Unrecognized string | Nullish

record tab =
  tab_id :: "int option"
  tab_url :: "string option"
  tab_title :: "string option"

record history_item =
  hist_url :: "string option"
  hist_title :: "string option"

record history_query =
  query_text :: string
  maxResults :: nat
  startTime :: nat

record link =
  link_url :: string
  link_text :: string

text \<open>What the script injected by \<^verbatim>\<open>sendTabsContent\<close> returns, and what the
  \<^verbatim>\<open>tab-content\<close> resource carries: \<open>fullText\<close> is the returned slice of the
  page text, \<open>totalLength\<close> the length of the whole page text.\<close>

record page_content =
  links :: "link list"
  fullText :: string
  isTruncated :: bool
  totalLength :: nat

text \<open>The object literals handed to \<^verbatim>\<open>sendResourceToServer\<close>, one constructor per
  \<^verbatim>\<open>resource\<close> tag.\<close>

datatype ExtensionMessage =
    Opened_tab_id correlation_id "int option"
  | Tabs correlation_id "tab list"
  | History correlation_id "history_item list"
  | Tab_content int correlation_id page_content
  | Tabs_reordered correlation_id "int list"
  | Find_highlight_result correlation_id int

text \<open>The wire frames: \<^verbatim>\<open>{ payload, signature }\<close>. An inbound frame may lack its
  signature.\<close>

record signed_request =
  req_payload :: payload
  req_signature :: "string option"

record signed_resource =
  res_payload :: ExtensionMessage
  res_signature :: string

text \<open>A rejected promise or a thrown exception; the string is what
  \<^verbatim>\<open>${error}\<close> renders.\<close>

datatype js_error = JsError string

text \<open>The part of a page the injected script reads: \<^verbatim>\<open>document.body.innerText\<close>
  and the elements matching \<^verbatim>\<open>a[href]\<close>.\<close>

record anchor =
  anchor_href :: string
  anchor_innerText :: string
  anchor_aria_label :: "string option"
  anchor_title :: "string option"

record page =
  body_innerText :: string
  anchors :: "anchor list"

datatype ready_state = CONNECTING | OPEN | CLOSING | CLOSED

subsection \<open>The platform\<close>

text \<open>
  Everything the client calls and does not define: \<^verbatim>\<open>getMessageSignature\<close> (module
  \<^verbatim>\<open>./auth\<close>), \<^verbatim>\<open>JSON.parse\<close> and \<^verbatim>\<open>JSON.stringify\<close>, and the WebExtension
  primitives \<^verbatim>\<open>browser.*\<close>. They are parameters of the model. A primitive takes the
  browser's state \<open>'b\<close> and returns its outcome with the new state; \<open>Inl\<close> is a rejected
  promise. \<open>JSON_parse\<close> is \<open>Inl\<close> where \<^verbatim>\<open>JSON.parse\<close> throws or gives a value with no
  properties to read (null). A primitive that throws on the call instead of rejecting is
  outside the model. \<open>tabs_executeScript\<close> gives the page the script runs in.
\<close>

record 'b platform =
  getMessageSignature :: "string \<Rightarrow> string \<Rightarrow> string"
  JSON_parse :: "string \<Rightarrow> js_error + signed_request"
  stringify_request :: "payload \<Rightarrow> string"
  stringify_resource :: "ExtensionMessage \<Rightarrow> string"
  tabs_create :: "string \<Rightarrow> 'b \<Rightarrow> (js_error + tab) \<times> 'b"
  tabs_remove :: "int list \<Rightarrow> 'b \<Rightarrow> (js_error + unit) \<times> 'b"
  tabs_query :: "'b \<Rightarrow> (js_error + tab list) \<times> 'b"
  history_search :: "history_query \<Rightarrow> 'b \<Rightarrow> (js_error + history_item list) \<times> 'b"
  tabs_executeScript :: "int \<Rightarrow> 'b \<Rightarrow> (js_error + page) \<times> 'b"
  tabs_move :: "int \<Rightarrow> nat \<Rightarrow> 'b \<Rightarrow> (js_error + unit) \<times> 'b"
  find_find :: "string \<Rightarrow> int \<Rightarrow> bool \<Rightarrow> 'b \<Rightarrow> (js_error + int) \<times> 'b"
  tabs_update_active :: "int \<Rightarrow> 'b \<Rightarrow> (js_error + unit) \<times> 'b"
  find_highlightResults :: "int \<Rightarrow> 'b \<Rightarrow> (js_error + unit) \<times> 'b"

subsection \<open>Effects\<close>

datatype browser_call =
    Tabs_create string
  | Tabs_remove "int list"
  | Tabs_query
  | History_search history_query
  | Tabs_executeScript int "int option"
  | Tabs_move int nat
  | Find_find string int bool
  | Tabs_update_active int
  | Find_highlightResults int

text \<open>The arguments of a console call: strings, numbers, errors, requests, and any other
  object, written as the console shows it.\<close>

datatype log_arg = Str string | Num int | Err js_error | Req ServerMessageRequest | Obj string

text \<open>What the extension does to the outside, in the order it does it: console output,
  calls of browser primitives, frames passed to \<^verbatim>\<open>socket.send\<close> (with the port of the
  socket), sockets opened, timers registered, and promises rejected with nobody to catch
  them.\<close>

datatype event =
    Console_log "log_arg list"
  | Console_error "log_arg list"
  | Browser_call browser_call
  | Socket_send nat signed_resource
  | WebSocket_new nat
  | Set_interval nat nat
  | Unhandled_rejection js_error

text \<open>The state: the \<^verbatim>\<open>socket\<close> variable of the client of each port
  (\<^verbatim>\<open>null\<close> is \<open>None\<close>, a socket is its \<^verbatim>\<open>readyState\<close>), the browser, and
  the effects so far. A listener or a handler runs to its end on the state it is given; it
  reads the socket only when it sends, so the socket of the state is the socket at that
  time.\<close>

record 'b extension =
  sockets :: "nat \<Rightarrow> ready_state option"
  browser :: 'b
  trace :: "event list"

definition emit :: "event \<Rightarrow> 'b extension \<Rightarrow> 'b extension" where
  "emit e st = st\<lparr>trace := trace st @ [e]\<rparr>"

text \<open>A browser primitive is called: the call is recorded, the browser moves on.\<close>

definition called :: "browser_call \<Rightarrow> 'b \<Rightarrow> 'b extension \<Rightarrow> 'b extension" where
  "called c b' st = st\<lparr>browser := b', trace := trace st @ [Browser_call c]\<rparr>"

section \<open>JavaScript helpers\<close>

function nat_to_string :: "nat \<Rightarrow> string" where
  "nat_to_string n =
     (if n < 10 then [char_of (48 + n)]
      else nat_to_string (n div 10) @ [char_of (48 + n mod 10)])"
  by pat_completeness auto
termination
  by (relation "measure id") auto

text \<open>An integer in a template string (decimal; the exponent notation of numbers from
  \<open>10\<^sup>2\<^sup>1\<close> on is outside the model).\<close>

definition number_to_string :: "int \<Rightarrow> string" where
  "number_to_string i =
     (if i < 0 then CHR ''-'' # nat_to_string (nat (- i)) else nat_to_string (nat i))"

definition error_to_string :: "js_error \<Rightarrow> string" where
  "error_to_string e = (case e of JsError s \<Rightarrow> s)"

text \<open>\<^verbatim>\<open>s.substring(start)\<close> and \<^verbatim>\<open>s.substring(0, n)\<close>: a negative start counts as
  0, a start or an end beyond the string as its length.\<close>

definition substring_from :: "string \<Rightarrow> int \<Rightarrow> string" where
  "substring_from s start = drop (nat start) s"

definition substring_to :: "string \<Rightarrow> nat \<Rightarrow> string" where
  "substring_to s n = take n s"

text \<open>\<^verbatim>\<open>String.prototype.trim\<close> strips white space and line terminators at both ends;
  below 256 these are the code units 9 to 13, 32 and 160.\<close>

definition is_whitespace :: "char \<Rightarrow> bool" where
  "is_whitespace c = (c \<in> set (map char_of [9, 10, 11, 12, 13, 32, 160 :: nat]))"

definition trim :: "string \<Rightarrow> string" where
  "trim s = rev (dropWhile is_whitespace (rev (dropWhile is_whitespace s)))"

text \<open>\<^verbatim>\<open>a || b\<close> on strings that may be null: the first one that is neither null nor
  empty.\<close>

definition or_else :: "string option \<Rightarrow> string option \<Rightarrow> string option" where
  "or_else a b = (case a of None \<Rightarrow> b | Some s \<Rightarrow> if s = [] then b else Some s)"

section \<open>The client\<close>

definition WS_PORTS :: "nat list" where
  "WS_PORTS = [8081, 8082]"

definition sign_resource :: "'b platform \<Rightarrow> string \<Rightarrow> ExtensionMessage \<Rightarrow> signed_resource" where
  "sign_resource pf secret resource =
     \<lparr>res_payload = resource,
      res_signature = getMessageSignature pf (stringify_resource pf resource) secret\<rparr>"

definition sendResourceToServer ::
  "'b platform \<Rightarrow> string \<Rightarrow> nat \<Rightarrow> ExtensionMessage \<Rightarrow> 'b extension \<Rightarrow> 'b extension" where
  "sendResourceToServer pf secret port resource st =
     (if sockets st port = None \<or> sockets st port \<noteq> Some OPEN
      then emit (Console_error [Str ''Socket is not open'']) st
      else emit (Socket_send port (sign_resource pf secret resource)) st)"

definition openUrl ::
  "'b platform \<Rightarrow> string \<Rightarrow> nat \<Rightarrow> correlation_id \<Rightarrow> string \<Rightarrow> 'b extension \<Rightarrow> 'b extension" where
  "openUrl pf secret port correlationId url st =
     (if \<not> prefix ''https://'' url then emit (Console_error [Str ''Invalid URL:'', Str url]) st
      else
        (case tabs_create pf url (browser st) of
          (Inl e, b') \<Rightarrow> emit (Unhandled_rejection e) (called (Tabs_create url) b' st)
        | (Inr t, b') \<Rightarrow>
            sendResourceToServer pf secret port (Opened_tab_id correlationId (tab_id t))
              (called (Tabs_create url) b' st)))"

definition closeTabs :: "'b platform \<Rightarrow> int list \<Rightarrow> 'b extension \<Rightarrow> 'b extension" where
  "closeTabs pf tabIds st =
     (case tabs_remove pf tabIds (browser st) of
       (Inr _, b') \<Rightarrow>
         emit (Console_log [Str (''Successfully closed '' @ number_to_string (int (length tabIds))
                                  @ '' tabs'')])
           (called (Tabs_remove tabIds) b' st)
     | (Inl e, b') \<Rightarrow>
         emit (Console_error [Str (''Error closing tabs: '' @ error_to_string e)])
           (called (Tabs_remove tabIds) b' st))"

definition sendTabs ::
  "'b platform \<Rightarrow> string \<Rightarrow> nat \<Rightarrow> correlation_id \<Rightarrow> 'b extension \<Rightarrow> 'b extension" where
  "sendTabs pf secret port correlationId st =
     (case tabs_query pf (browser st) of
       (Inr tabs, b') \<Rightarrow>
         sendResourceToServer pf secret port (Tabs correlationId tabs) (called Tabs_query b' st)
     | (Inl e, b') \<Rightarrow> emit (Unhandled_rejection e) (called Tabs_query b' st))"

text \<open>\<^verbatim>\<open>!!item.url\<close> holds of a url that is neither undefined nor empty.\<close>

definition sendRecentHistory ::
  "'b platform \<Rightarrow> string \<Rightarrow> nat \<Rightarrow> correlation_id \<Rightarrow> string option \<Rightarrow> 'b extension
     \<Rightarrow> 'b extension" where
  "sendRecentHistory pf secret port correlationId searchQuery st =
     (let q = \<lparr>query_text = (case searchQuery of None \<Rightarrow> [] | Some s \<Rightarrow> s),
                maxResults = 200, startTime = 0\<rparr>
      in case history_search pf q (browser st) of
           (Inr historyItems, b') \<Rightarrow>
             (let filteredHistoryItems =
                    filter (\<lambda>item. hist_url item \<noteq> None \<and> hist_url item \<noteq> Some []) historyItems
              in sendResourceToServer pf secret port (History correlationId filteredHistoryItems)
                   (called (History_search q) b' st))
         | (Inl e, b') \<Rightarrow>
             emit (Console_error [Str (''Error fetching history: '' @ error_to_string e)])
               (called (History_search q) b' st))"

subsection \<open>The script injected into the page\<close>

definition MAX_CONTENT_LENGTH :: nat where
  "MAX_CONTENT_LENGTH = 50000"

definition getLinks :: "page \<Rightarrow> link list" where
  "getLinks pg =
     filter (\<lambda>l. link_text l \<noteq> [] \<and> prefix ''https://'' (link_url l) \<and> CHR ''#'' \<notin> set (link_url l))
       (map (\<lambda>el. \<lparr>link_url = anchor_href el,
                   link_text =
                     (case or_else (or_else (Some (trim (anchor_innerText el))) (anchor_aria_label el))
                             (anchor_title el) of
                       None \<Rightarrow> [] | Some s \<Rightarrow> s)\<rparr>)
          (anchors pg))"

text \<open>\<^verbatim>\<open>${offset || 0}\<close>: an absent offset and the offset 0 give 0.\<close>

definition offset_or_zero :: "int option \<Rightarrow> int" where
  "offset_or_zero offset = (case offset of None \<Rightarrow> 0 | Some n \<Rightarrow> if n = 0 then 0 else n)"

definition getTextContent :: "int option \<Rightarrow> page \<Rightarrow> string \<times> bool" where
  "getTextContent offset pg =
     (let t = substring_from (body_innerText pg) (offset_or_zero offset)
      in if length t > MAX_CONTENT_LENGTH then (substring_to t MAX_CONTENT_LENGTH, True)
         else (t, False))"

definition injected_script :: "int option \<Rightarrow> page \<Rightarrow> page_content" where
  "injected_script offset pg =
     (let textContent = getTextContent offset pg
      in \<lparr>links = getLinks pg,
          fullText = fst textContent,
          isTruncated = snd textContent,
          totalLength = length (body_innerText pg)\<rparr>)"

definition sendTabsContent ::
  "'b platform \<Rightarrow> string \<Rightarrow> nat \<Rightarrow> correlation_id \<Rightarrow> int \<Rightarrow> int option \<Rightarrow> 'b extension
     \<Rightarrow> 'b extension" where
  "sendTabsContent pf secret port correlationId tabId offset st =
     (case tabs_executeScript pf tabId (browser st) of
       (Inr pg, b') \<Rightarrow>
         sendResourceToServer pf secret port
           (Tab_content tabId correlationId (injected_script offset pg))
           (called (Tabs_executeScript tabId offset) b' st)
     | (Inl e, b') \<Rightarrow>
         emit (Console_error
                 [Str ''sendTabsContent for tab ID %s - Error executing script:'', Num tabId, Err e])
           (called (Tabs_executeScript tabId offset) b' st))"

subsection \<open>Reordering and highlighting\<close>

text \<open>The loop of \<^verbatim>\<open>reorderTabs\<close>, from index \<open>newIndex\<close> on: the tab ids still to
  move are the rest of \<open>tabOrder\<close>.\<close>

fun reorder_loop :: "'b platform \<Rightarrow> nat \<Rightarrow> int list \<Rightarrow> 'b extension \<Rightarrow> 'b extension" where
  "reorder_loop pf newIndex [] st = st"
| "reorder_loop pf newIndex (tabId # rest) st =
     (case tabs_move pf tabId newIndex (browser st) of
       (Inr _, b') \<Rightarrow> reorder_loop pf (Suc newIndex) rest (called (Tabs_move tabId newIndex) b' st)
     | (Inl e, b') \<Rightarrow>
         reorder_loop pf (Suc newIndex) rest
           (emit (Console_error [Str (''Error moving tab '' @ number_to_string tabId @ '': ''
                                       @ error_to_string e)])
              (called (Tabs_move tabId newIndex) b' st)))"

text \<open>What the browser answers to the moves of the loop, one after the other, and what
  one move leaves in the trace: its call, and the logged error when it failed.\<close>

fun move_outcomes :: "'b platform \<Rightarrow> nat \<Rightarrow> int list \<Rightarrow> 'b \<Rightarrow> (js_error + unit) list" where
  "move_outcomes pf newIndex [] b = []"
| "move_outcomes pf newIndex (tabId # rest) b =
     fst (tabs_move pf tabId newIndex b)
       # move_outcomes pf (Suc newIndex) rest (snd (tabs_move pf tabId newIndex b))"

definition move_events :: "(nat \<times> int) \<times> (js_error + unit) \<Rightarrow> event list" where
  "move_events x =
     (case x of
       ((newIndex, tabId), Inr _) \<Rightarrow> [Browser_call (Tabs_move tabId newIndex)]
     | ((newIndex, tabId), Inl e) \<Rightarrow>
         [Browser_call (Tabs_move tabId newIndex),
          Console_error [Str (''Error moving tab '' @ number_to_string tabId @ '': ''
                               @ error_to_string e)]])"

definition reorderTabs ::
  "'b platform \<Rightarrow> string \<Rightarrow> nat \<Rightarrow> correlation_id \<Rightarrow> int list \<Rightarrow> 'b extension \<Rightarrow> 'b extension" where
  "reorderTabs pf secret port correlationId tabOrder st =
     sendResourceToServer pf secret port (Tabs_reordered correlationId tabOrder)
       (reorder_loop pf 0 tabOrder st)"

text \<open>\<^verbatim>\<open>browser.find.highlightResults\<close> is not awaited: its rejection is nobody's.\<close>

definition highlightResults :: "'b platform \<Rightarrow> int \<Rightarrow> 'b extension \<Rightarrow> 'b extension" where
  "highlightResults pf tabId st =
     (case find_highlightResults pf tabId (browser st) of
       (Inr _, b') \<Rightarrow> called (Find_highlightResults tabId) b' st
     | (Inl e, b') \<Rightarrow> emit (Unhandled_rejection e) (called (Find_highlightResults tabId) b' st))"

definition findAndHighlightText ::
  "'b platform \<Rightarrow> string \<Rightarrow> nat \<Rightarrow> correlation_id \<Rightarrow> int \<Rightarrow> string \<Rightarrow> 'b extension
     \<Rightarrow> 'b extension" where
  "findAndHighlightText pf secret port correlationId tabId queryPhrase st =
     (case find_find pf queryPhrase tabId True (browser st) of
       (Inl e, b') \<Rightarrow> emit (Unhandled_rejection e) (called (Find_find queryPhrase tabId True) b' st)
     | (Inr count, b') \<Rightarrow>
         (let st1 = called (Find_find queryPhrase tabId True) b' st
          in if count > 0 then
               (case tabs_update_active pf tabId (browser st1) of
                 (Inl e, b'') \<Rightarrow> emit (Unhandled_rejection e) (called (Tabs_update_active tabId) b'' st1)
               | (Inr _, b'') \<Rightarrow>
                   sendResourceToServer pf secret port (Find_highlight_result correlationId count)
                     (highlightResults pf tabId (called (Tabs_update_active tabId) b'' st1)))
             else sendResourceToServer pf secret port (Find_highlight_result correlationId count) st1))"

subsection \<open>Dispatch and the message listener\<close>

fun handleDecodedMessage ::
  "'b platform \<Rightarrow> string \<Rightarrow> nat \<Rightarrow> ServerMessageRequest \<Rightarrow> 'b extension \<Rightarrow> 'b extension" where
  "handleDecodedMessage pf secret port (Open_tab correlationId url) st =
     openUrl pf secret port correlationId url st"
| "handleDecodedMessage pf secret port (Close_tabs correlationId tabIds) st =
     closeTabs pf tabIds st"
| "handleDecodedMessage pf secret port (Get_tab_list correlationId) st =
     sendTabs pf secret port correlationId st"
| "handleDecodedMessage pf secret port (Get_browser_recent_history correlationId searchQuery) st =
     sendRecentHistory pf secret port correlationId searchQuery st"
| "handleDecodedMessage pf secret port (Get_tab_content correlationId tabId offset) st =
     sendTabsContent pf secret port correlationId tabId offset st"
| "handleDecodedMessage pf secret port (Reorder_tabs correlationId tabOrder) st =
     reorderTabs pf secret port correlationId tabOrder st"
| "handleDecodedMessage pf secret port (Find_highlight correlationId tabId queryPhrase) st =
     findAndHighlightText pf secret port correlationId tabId queryPhrase st"
| "handleDecodedMessage pf secret port req st =
     emit (Console_error [Str ''Invalid message received:'', Req req]) st"

text \<open>\<^verbatim>\<open>handleDecodedMessage\<close> on whatever the frame held. A request goes to its arm. Any
  other value that is not null matches no case and reaches the default branch. Reading
  \<^verbatim>\<open>cmd\<close> of null throws: the outcome is the error, for the listener to catch.\<close>

definition handle_payload ::
  "'b platform \<Rightarrow> string \<Rightarrow> nat \<Rightarrow> payload \<Rightarrow> 'b extension \<Rightarrow> js_error + 'b extension" where
  "handle_payload pf secret port p st =
     (case p of
       Request req \<Rightarrow> Inr (handleDecodedMessage pf secret port req st)
     | Unrecognized v \<Rightarrow> Inr (emit (Console_error [Str ''Invalid message received:'', Obj v]) st)
     | Nullish \<Rightarrow> Inl (JsError ''TypeError''))"

text \<open>The listener of the socket's \<^verbatim>\<open>message\<close> event, on the frame text \<open>data\<close>. The
  signature is computed over the parsed payload, serialized again; the payload is looked at
  only after the test. Whatever is thrown inside the \<^verbatim>\<open>try\<close> is caught and logged.\<close>

definition on_message :: "'b platform \<Rightarrow> string \<Rightarrow> nat \<Rightarrow> string \<Rightarrow> 'b extension \<Rightarrow> 'b extension" where
  "on_message pf secret port data st =
     (let st1 = emit (Console_log [Str ''Message from server:'', Str data]) st
      in case JSON_parse pf data of
           Inl error \<Rightarrow> emit (Console_error [Str ''Failed to parse message:'', Err error]) st1
         | Inr signedMessage \<Rightarrow>
             (let messageSig =
                    getMessageSignature pf (stringify_request pf (req_payload signedMessage)) secret
              in if length messageSig = 0 \<or> Some messageSig \<noteq> req_signature signedMessage
                 then emit (Console_error [Str ''Invalid message signature'']) st1
                 else (case handle_payload pf secret port (req_payload signedMessage) st1 of
                         Inr st2 \<Rightarrow> st2
                       | Inl error \<Rightarrow>
                           emit (Console_error [Str ''Failed to parse message:'', Err error]) st1)))"

subsection \<open>Connecting and retrying\<close>

text \<open>\<^verbatim>\<open>connectWebSocket\<close>: a new socket replaces the client's \<^verbatim>\<open>socket\<close>; a new
  socket is connecting.\<close>

definition connectWebSocket :: "nat \<Rightarrow> 'b extension \<Rightarrow> 'b extension" where
  "connectWebSocket port st =
     (emit (WebSocket_new port)
        (emit (Console_log [Str ''Connecting to WebSocket server'']) st))
       \<lparr>sockets := (sockets st)(port := Some CONNECTING)\<rparr>"

text \<open>The callback of \<^verbatim>\<open>setInterval\<close>, run by the platform at each expiry of the
  interval.\<close>

definition retry_tick :: "nat \<Rightarrow> 'b extension \<Rightarrow> 'b extension" where
  "retry_tick port st =
     (if sockets st port = None \<or> sockets st port = Some CLOSED then connectWebSocket port st
      else st)"

definition RETRY_INTERVAL_MS :: nat where
  "RETRY_INTERVAL_MS = 2000"

definition initWsClient :: "nat \<Rightarrow> 'b extension \<Rightarrow> 'b extension" where
  "initWsClient port st = emit (Set_interval port RETRY_INTERVAL_MS) (connectWebSocket port st)"

text \<open>The listeners of \<^verbatim>\<open>open\<close> and \<^verbatim>\<open>error\<close> (the latter on its event). The platform has set the
  \<^verbatim>\<open>readyState\<close> to \<open>OPEN\<close> when it fires \<^verbatim>\<open>open\<close>;
  \<^verbatim>\<open>socket.close()\<close> starts the closing handshake of a socket that is not yet closing
  or closed.\<close>

definition on_open :: "nat \<Rightarrow> 'b extension \<Rightarrow> 'b extension" where
  "on_open port st =
     emit (Console_log [Str ''Connected to WebSocket server at port'', Num (int port)])
       (st\<lparr>sockets := (sockets st)(port := Some OPEN)\<rparr>)"

definition socket_close :: "ready_state \<Rightarrow> ready_state" where
  "socket_close rs = (case rs of CONNECTING \<Rightarrow> CLOSING | OPEN \<Rightarrow> CLOSING | _ \<Rightarrow> rs)"

definition on_error :: "nat \<Rightarrow> string \<Rightarrow> 'b extension \<Rightarrow> 'b extension" where
  "on_error port event st =
     (let st1 = emit (Console_error [Str ''WebSocket error:'', Obj event]) st
      in case sockets st1 port of
           None \<Rightarrow> st1
         | Some rs \<Rightarrow> st1\<lparr>sockets := (sockets st1)(port := Some (socket_close rs))\<rparr>)"

text \<open>The platform closes the socket (the client has no listener of \<^verbatim>\<open>close\<close>).\<close>

definition socket_closed :: "nat \<Rightarrow> 'b extension \<Rightarrow> 'b extension" where
  "socket_closed port st = st\<lparr>sockets := (sockets st)(port := Some CLOSED)\<rparr>"

text \<open>\<open>n\<close> expiries of the interval of one client, the socket closed again by the platform
  after each (the server is not there).\<close>

fun failed_rounds :: "nat \<Rightarrow> nat \<Rightarrow> 'b extension \<Rightarrow> 'b extension" where
  "failed_rounds 0 port st = st"
| "failed_rounds (Suc n) port st = failed_rounds n port (socket_closed port (retry_tick port st))"

text \<open>The start of the extension, on the outcome of \<^verbatim>\<open>getConfig\<close> (the
  \<^verbatim>\<open>secret\<close> of the configuration, if it has one).\<close>

definition startup :: "(js_error + string option) \<Rightarrow> 'b extension \<Rightarrow> 'b extension" where
  "startup config st =
     (case config of
       Inl e \<Rightarrow> emit (Console_error [Str ''Error loading config.json:'', Err e]) st
     | Inr None \<Rightarrow> emit (Console_error [Str ''Secret not found in config.json'']) st
     | Inr (Some secret) \<Rightarrow>
         if secret = [] then emit (Console_error [Str ''Secret not found in config.json'']) st
         else emit (Console_log [Str ''Browser extension initialized''])
                (fold initWsClient WS_PORTS st))"

section \<open>The server's tool for tab content\<close>

text \<open>The handler of \<^verbatim>\<open>get-tab-web-content\<close> (server.ts), on the \<open>offset\<close> of the call and
  the content that \<^verbatim>\<open>browserApi.getTabContent\<close> resolved to. Every item of the answer has
  the type \<^verbatim>\<open>"text"\<close>; an item is written as its text.\<close>

definition link_item :: "link \<Rightarrow> string" where
  "link_item l = ''Link text: '' @ link_text l @ '', Link URL: '' @ link_url l"

definition truncation_hint :: "int \<Rightarrow> page_content \<Rightarrow> string list" where
  "truncation_hint offset content =
     (if isTruncated content \<or> offset > 0
      then [''The following text content is truncated due to size (includes character range ''
             @ number_to_string offset @ ''-''
             @ number_to_string (offset + int (length (fullText content)))
             @ '' out of '' @ number_to_string (int (totalLength content)) @ ''). ''
             @ ''If you want to read characters beyond this range, please use the ''
             @ [CHR 0x27] @ ''get-tab-web-content'' @ [CHR 0x27] @ '' tool with an offset. '']
      else [])"

definition get_tab_web_content :: "int \<Rightarrow> page_content \<Rightarrow> string list" where
  "get_tab_web_content offset content =
     (let links = (if offset = 0 then map link_item (links content) else [])
      in truncation_hint offset content @ [fullText content] @ links)"

section \<open>Reading the trace\<close>

text \<open>The browser primitives called, the resources passed to \<^verbatim>\<open>socket.send\<close> with the
  port they went to, the timers registered, and the number of sockets opened to a port.\<close>

fun browser_calls :: "event list \<Rightarrow> browser_call list" where
  "browser_calls [] = []"
| "browser_calls (Browser_call c # evs) = c # browser_calls evs"
| "browser_calls (_ # evs) = browser_calls evs"

fun results_sent :: "event list \<Rightarrow> (nat \<times> ExtensionMessage) list" where
  "results_sent [] = []"
| "results_sent (Socket_send port m # evs) = (port, res_payload m) # results_sent evs"
| "results_sent (_ # evs) = results_sent evs"

fun timers :: "event list \<Rightarrow> (nat \<times> nat) list" where
  "timers [] = []"
| "timers (Set_interval port ms # evs) = (port, ms) # timers evs"
| "timers (_ # evs) = timers evs"

definition connection_attempts :: "nat \<Rightarrow> event list \<Rightarrow> nat" where
  "connection_attempts port evs = length (filter (\<lambda>e. e = WebSocket_new port) evs)"

section \<open>A small platform for examples\<close>

text \<open>A browser whose state is the id of the next tab: tab 1 shows \<open>example_page\<close>, a
  negative tab id is no tab, the phrase \<open>needle\<close> is found twice and nothing else is found.\<close>

definition example_page :: page where
  "example_page =
     \<lparr>body_innerText = ''hello world'',
      anchors = [\<lparr>anchor_href = ''https://example.com/a'', anchor_innerText = '' A '',
                  anchor_aria_label = None, anchor_title = None\<rparr>]\<rparr>"

text \<open>Four frame texts. The second is the first with one space put into its payload; the
  third carries the signature of the first around another payload; the fourth has no
  signature.\<close>

definition example_frame :: string where
  "example_frame =
     ''{\"payload\":{\"cmd\":\"get-tab-list\",\"correlationId\":\"c1\"},\"signature\":\"k:43\"}''"

definition example_frame_respaced :: string where
  "example_frame_respaced =
     ''{\"payload\":{\"cmd\": \"get-tab-list\",\"correlationId\":\"c1\"},\"signature\":\"k:43\"}''"

definition example_frame_forged :: string where
  "example_frame_forged =
     ''{\"payload\":{\"cmd\":\"open-tab\",\"url\":\"https://example.com/\",\"correlationId\":\"c1\"},\"signature\":\"k:43\"}''"

definition example_frame_unsigned :: string where
  "example_frame_unsigned =
     ''{\"payload\":{\"cmd\":\"get-tab-list\",\"correlationId\":\"c1\"}}''"

text \<open>A page of 120000 characters.\<close>

definition example_long_page :: page where
  "example_long_page = \<lparr>body_innerText = replicate 120000 CHR ''a'', anchors = []\<rparr>"

definition example_history :: "history_item list" where
  "example_history =
     [\<lparr>hist_url = Some ''https://example.com/'', hist_title = Some ''Example''\<rparr>,
      \<lparr>hist_url = None, hist_title = Some ''No address''\<rparr>]"

text \<open>The platform: \<open>JSON_parse\<close> reads the four frame texts as \<^verbatim>\<open>JSON.parse\<close> does and
  nothing else; the signature is the key and the length of the message.\<close>

definition example_platform :: "nat platform" where
  "example_platform =
     \<lparr>getMessageSignature = (\<lambda>message key.
        key @ '':'' @ number_to_string (int (length message))),
      JSON_parse = (\<lambda>data.
        if data = example_frame \<or> data = example_frame_respaced then
          Inr \<lparr>req_payload = Request (Get_tab_list ''c1''), req_signature = Some ''k:43''\<rparr>
        else if data = example_frame_forged then
          Inr \<lparr>req_payload = Request (Open_tab ''c1'' ''https://example.com/''),
                req_signature = Some ''k:43''\<rparr>
        else if data = example_frame_unsigned then
          Inr \<lparr>req_payload = Request (Get_tab_list ''c1''), req_signature = None\<rparr>
        else Inl (JsError ''SyntaxError'')),
      stringify_request = (\<lambda>p.
        case p of
          Request (Get_tab_list c) \<Rightarrow> ''{\"cmd\":\"get-tab-list\",\"correlationId\":\"'' @ c @ ''\"}''
        | Request (Open_tab c u) \<Rightarrow>
            ''{\"cmd\":\"open-tab\",\"url\":\"'' @ u @ ''\",\"correlationId\":\"'' @ c @ ''\"}''
        | Request _ \<Rightarrow> ''{}''
        | Unrecognized v \<Rightarrow> v
        | Nullish \<Rightarrow> ''null''),
      stringify_resource = (\<lambda>res. ''resource''),
      tabs_create = (\<lambda>url b.
        (Inr \<lparr>tab_id = Some (int b), tab_url = Some url, tab_title = None\<rparr>, Suc b)),
      tabs_remove = (\<lambda>tabIds b.
        (if \<exists>t \<in> set tabIds. t < 0 then Inl (JsError ''Error: Invalid tab ID'') else Inr (), b)),
      tabs_query = (\<lambda>b. (Inr [], b)),
      history_search = (\<lambda>q b. (Inr (take (maxResults q) example_history), b)),
      tabs_executeScript = (\<lambda>tabId b.
        (if tabId = 1 then Inr example_page else Inl (JsError ''Error: Invalid tab ID''), b)),
      tabs_move = (\<lambda>tabId newIndex b.
        (if tabId < 0 then Inl (JsError ''Error: Invalid tab ID'') else Inr (), b)),
      find_find = (\<lambda>queryPhrase tabId caseSensitive b.
        (Inr (if queryPhrase = ''needle'' then 2 else 0), b)),
      tabs_update_active = (\<lambda>tabId b. (Inr (), b)),
      find_highlightResults = (\<lambda>tabId b. (Inr (), b))\<rparr>"

text \<open>A state in which the client of port 8081 is connected and the client of port 8082 is
  not.\<close>

definition example_state :: "nat extension" where
  "example_state =
     \<lparr>sockets = (\<lambda>port. if port = 8081 then Some OPEN else if port = 8082 then Some CLOSED else None),
      browser = 7, trace = []\<rparr>"

section \<open>The content pager\<close>

lemma getTextContent_cases:
  "getTextContent offset pg =
     (let t = drop (nat (offset_or_zero offset)) (body_innerText pg)
      in if length t > MAX_CONTENT_LENGTH then (take MAX_CONTENT_LENGTH t, True) else (t, False))"
  by (simp add: getTextContent_def substring_from_def substring_to_def Let_def)

text \<open>
  Claim C4. For a page text of length \<open>L\<close> and an offset \<open>off\<close> with \<open>0 \<le> off \<le> L\<close>, the
  script returns as \<open>fullText\<close> a slice of at most \<open>MAX_CONTENT_LENGTH\<close> = 50000 characters
  that starts at \<open>off\<close>, with \<open>off + length fullText \<le> L\<close>; \<open>isTruncated\<close> holds exactly
  when \<open>off + length fullText < L\<close>; \<open>totalLength\<close> is \<open>L\<close>. An absent offset is the
  offset 0.
\<close>

theorem pager_window:
  assumes "0 \<le> off" and "off \<le> int (length (body_innerText pg))"
  shows "MAX_CONTENT_LENGTH = 50000
    \<and> length (fullText (injected_script (Some off) pg)) \<le> MAX_CONTENT_LENGTH
    \<and> fullText (injected_script (Some off) pg)
        = take (length (fullText (injected_script (Some off) pg))) (drop (nat off) (body_innerText pg))
    \<and> nat off + length (fullText (injected_script (Some off) pg)) \<le> length (body_innerText pg)
    \<and> isTruncated (injected_script (Some off) pg)
        = (nat off + length (fullText (injected_script (Some off) pg)) < length (body_innerText pg))
    \<and> totalLength (injected_script (Some off) pg) = length (body_innerText pg)
    \<and> injected_script None pg = injected_script (Some 0) pg"
proof -
  let ?t = "drop (nat off) (body_innerText pg)"
  have oz: "offset_or_zero (Some off) = off"
    by (simp add: offset_or_zero_def)
  have le: "nat off \<le> length (body_innerText pg)"
    using assms by linarith
  show ?thesis
  proof (cases "length ?t > MAX_CONTENT_LENGTH")
    case True
    then have "getTextContent (Some off) pg = (take MAX_CONTENT_LENGTH ?t, True)"
      by (simp add: getTextContent_cases oz)
    with True le show ?thesis
      by (auto simp add: injected_script_def MAX_CONTENT_LENGTH_def offset_or_zero_def
            getTextContent_cases min_def)
  next
    case False
    then have "getTextContent (Some off) pg = (?t, False)"
      by (simp add: getTextContent_cases oz)
    with False le show ?thesis
      by (auto simp add: injected_script_def MAX_CONTENT_LENGTH_def offset_or_zero_def
            getTextContent_cases)
  qed
qed

theorem pager_window_witness:
  "(0::int) \<le> 6 \<and> (6::int) \<le> int (length (body_innerText example_page))
   \<and> fullText (injected_script (Some 6) example_page) = ''world''
   \<and> isTruncated (injected_script (Some 6) example_page) = False
   \<and> totalLength (injected_script (Some 6) example_page) = 11
   \<and> (0::int) \<le> 50000 \<and> (50000::int) \<le> int (length (body_innerText example_long_page))
   \<and> fullText (injected_script (Some 50000) example_long_page) = replicate 50000 CHR ''a''
   \<and> isTruncated (injected_script (Some 50000) example_long_page) = True
   \<and> totalLength (injected_script (Some 50000) example_long_page) = 120000"
proof -
  have short: "(0::int) \<le> 6" "(6::int) \<le> int (length (body_innerText example_page))"
    by (simp_all add: example_page_def)
  have long: "(0::int) \<le> 50000"
    "(50000::int) \<le> int (length (body_innerText example_long_page))"
    by (simp_all add: example_long_page_def)
  have slices:
    "fullText (injected_script (Some 6) example_page) = ''world''"
    "fullText (injected_script (Some 50000) example_long_page) = replicate 50000 CHR ''a''"
    by (simp_all add: injected_script_def getTextContent_cases offset_or_zero_def
          MAX_CONTENT_LENGTH_def example_page_def example_long_page_def)
  from pager_window [OF short] have short_flags:
    "isTruncated (injected_script (Some 6) example_page)
       = (nat 6 + length (fullText (injected_script (Some 6) example_page))
            < length (body_innerText example_page))"
    "totalLength (injected_script (Some 6) example_page) = length (body_innerText example_page)"
    by blast+
  from pager_window [OF long] have long_flags:
    "isTruncated (injected_script (Some 50000) example_long_page)
       = (nat 50000 + length (fullText (injected_script (Some 50000) example_long_page))
            < length (body_innerText example_long_page))"
    "totalLength (injected_script (Some 50000) example_long_page)
       = length (body_innerText example_long_page)"
    by blast+
  show ?thesis
    using short long
    by (simp add: slices short_flags long_flags)
       (simp add: example_page_def example_long_page_def)
qed

section \<open>Basic facts\<close>

lemma emit_simps [simp]:
  "trace (emit e st) = trace st @ [e]"
  "browser (emit e st) = browser st"
  "sockets (emit e st) = sockets st"
  by (simp_all add: emit_def)

lemma called_simps [simp]:
  "trace (called c b' st) = trace st @ [Browser_call c]"
  "browser (called c b' st) = b'"
  "sockets (called c b' st) = sockets st"
  by (simp_all add: called_def)

lemma sendResourceToServer_open:
  "sockets st port = Some OPEN \<Longrightarrow>
   sendResourceToServer pf secret port resource st
     = emit (Socket_send port (sign_resource pf secret resource)) st"
  by (simp add: sendResourceToServer_def)

text \<open>A resource for a socket that is not open is logged and lost.\<close>

lemma sendResourceToServer_not_open:
  "sockets st port \<noteq> Some OPEN \<Longrightarrow>
   sendResourceToServer pf secret port resource st
     = emit (Console_error [Str ''Socket is not open'']) st"
  by (auto simp add: sendResourceToServer_def)

lemma browser_calls_append [simp]:
  "browser_calls (xs @ ys) = browser_calls xs @ browser_calls ys"
  by (induction xs rule: browser_calls.induct) simp_all

lemma results_sent_append [simp]:
  "results_sent (xs @ ys) = results_sent xs @ results_sent ys"
  by (induction xs rule: results_sent.induct) simp_all

lemma timers_append [simp]: "timers (xs @ ys) = timers xs @ timers ys"
  by (induction xs rule: timers.induct) simp_all

lemma connection_attempts_append [simp]:
  "connection_attempts port (xs @ ys) = connection_attempts port xs + connection_attempts port ys"
  by (simp add: connection_attempts_def)

lemma res_payload_sign_resource [simp]: "res_payload (sign_resource pf secret resource) = resource"
  by (simp add: sign_resource_def)

text \<open>Digits and white space, evaluated.\<close>

lemma digit_chars:
  "char_of (48::nat) = CHR ''0''" "char_of (49::nat) = CHR ''1''" "char_of (50::nat) = CHR ''2''"
  "char_of (51::nat) = CHR ''3''" "char_of (52::nat) = CHR ''4''" "char_of (53::nat) = CHR ''5''"
  "char_of (54::nat) = CHR ''6''" "char_of (55::nat) = CHR ''7''" "char_of (56::nat) = CHR ''8''"
  "char_of (57::nat) = CHR ''9''"
  by (simp_all add: char_of_def bit_0)

lemma is_whitespace_examples:
  "is_whitespace CHR '' ''" "\<not> is_whitespace CHR ''A''"
  by (simp_all add: is_whitespace_def char_of_def bit_0)

text \<open>The example platform, field by field.\<close>

lemma example_platform_simps:
  "getMessageSignature example_platform message key
     = key @ '':'' @ number_to_string (int (length message))"
  "stringify_request example_platform (Request (Get_tab_list c))
     = ''{\"cmd\":\"get-tab-list\",\"correlationId\":\"'' @ c @ ''\"}''"
  "stringify_request example_platform (Request (Open_tab c u))
     = ''{\"cmd\":\"open-tab\",\"url\":\"'' @ u @ ''\",\"correlationId\":\"'' @ c @ ''\"}''"
  "stringify_resource example_platform res = ''resource''"
  "tabs_create example_platform url b
     = (Inr \<lparr>tab_id = Some (int b), tab_url = Some url, tab_title = None\<rparr>, Suc b)"
  "tabs_remove example_platform tabIds b
     = (if \<exists>t \<in> set tabIds. t < 0 then Inl (JsError ''Error: Invalid tab ID'') else Inr (), b)"
  "tabs_query example_platform b = (Inr [], b)"
  "history_search example_platform q b = (Inr (take (maxResults q) example_history), b)"
  "tabs_executeScript example_platform tabId b
     = (if tabId = 1 then Inr example_page else Inl (JsError ''Error: Invalid tab ID''), b)"
  "tabs_move example_platform tabId newIndex b
     = (if tabId < 0 then Inl (JsError ''Error: Invalid tab ID'') else Inr (), b)"
  "find_find example_platform queryPhrase tabId caseSensitive b
     = (Inr (if queryPhrase = ''needle'' then 2 else 0), b)"
  "tabs_update_active example_platform tabId b = (Inr (), b)"
  "find_highlightResults example_platform tabId b = (Inr (), b)"
  by (simp_all add: example_platform_def)

lemma example_state_simps:
  "sockets example_state 8081 = Some OPEN"
  "sockets example_state 8082 = Some CLOSED"
  "browser example_state = 7"
  "trace example_state = []"
  by (simp_all add: example_state_def)

lemma example_frames_differ:
  "example_frame_respaced \<noteq> example_frame"
  "example_frame_forged \<noteq> example_frame"
  "example_frame_forged \<noteq> example_frame_respaced"
  "example_frame_unsigned \<noteq> example_frame"
  "example_frame_unsigned \<noteq> example_frame_respaced"
  "example_frame_unsigned \<noteq> example_frame_forged"
  by (simp_all add: example_frame_def example_frame_respaced_def example_frame_forged_def
        example_frame_unsigned_def)

lemma example_JSON_parse:
  "JSON_parse example_platform example_frame
     = Inr \<lparr>req_payload = Request (Get_tab_list ''c1''), req_signature = Some ''k:43''\<rparr>"
  "JSON_parse example_platform example_frame_respaced
     = Inr \<lparr>req_payload = Request (Get_tab_list ''c1''), req_signature = Some ''k:43''\<rparr>"
  "JSON_parse example_platform example_frame_forged
     = Inr \<lparr>req_payload = Request (Open_tab ''c1'' ''https://example.com/''),
            req_signature = Some ''k:43''\<rparr>"
  "JSON_parse example_platform example_frame_unsigned
     = Inr \<lparr>req_payload = Request (Get_tab_list ''c1''), req_signature = None\<rparr>"
  by (simp_all add: example_platform_def example_frames_differ)

lemma example_signatures:
  "getMessageSignature example_platform
     (stringify_request example_platform (Request (Get_tab_list ''c1''))) ''k'' = ''k:43''"
  "getMessageSignature example_platform
     (stringify_request example_platform (Request (Open_tab ''c1'' ''https://example.com/''))) ''k''
     = ''k:68''"
  by (simp_all add: example_platform_simps number_to_string_def digit_chars)

lemmas example_simps = example_platform_simps example_state_simps

section \<open>The message listener\<close>

text \<open>
  Claim C1, as amended. A frame that does not parse is dropped. For a frame that parses, with
  \<open>mac\<close> the signature the agent computes with its secret over the parsed payload, serialized
  again: when \<open>mac\<close> is not empty and is the frame's signature, the payload is handed to
  \<^verbatim>\<open>handleDecodedMessage\<close> (a request runs its arm, another value reaches the default
  branch, null makes the handler throw into the listener's catch); in every other case the
  frame is dropped, which leaves a console error, calls no browser primitive, sends nothing
  and changes neither the browser nor the sockets. In particular a frame without a signature
  or with an empty one is dropped. The test reads the frame only through what it parses to:
  bytes changed in transit are detected when the frame no longer parses or the signature
  computed over the parsed payload no longer is the one carried, and not otherwise.
\<close>

theorem inbound_frame_verification:
  fixes pf :: "'b platform" and secret port data st
  defines "mac \<equiv> \<lambda>p. getMessageSignature pf (stringify_request pf p) secret"
  defines "st1 \<equiv> emit (Console_log [Str ''Message from server:'', Str data]) st"
  defines "dropped \<equiv>
     trace (on_message pf secret port data st)
       = trace st @ [Console_log [Str ''Message from server:'', Str data],
                     Console_error [Str ''Invalid message signature'']]
     \<and> browser (on_message pf secret port data st) = browser st
     \<and> sockets (on_message pf secret port data st) = sockets st"
  defines "accepted \<equiv>
     \<lambda>sm. mac (req_payload sm) \<noteq> [] \<and> req_signature sm = Some (mac (req_payload sm))"
  shows "(JSON_parse pf data = Inl error \<longrightarrow>
            on_message pf secret port data st
              = emit (Console_error [Str ''Failed to parse message:'', Err error]) st1)
       \<and> (JSON_parse pf data = Inr sm \<longrightarrow>
            (accepted sm \<and> req_payload sm = Request req \<longrightarrow>
               on_message pf secret port data st = handleDecodedMessage pf secret port req st1)
          \<and> (accepted sm \<and> req_payload sm = Unrecognized v \<longrightarrow>
               on_message pf secret port data st
                 = emit (Console_error [Str ''Invalid message received:'', Obj v]) st1)
          \<and> (accepted sm \<and> req_payload sm = Nullish \<longrightarrow>
               on_message pf secret port data st
                 = emit (Console_error [Str ''Failed to parse message:'', Err (JsError ''TypeError'')])
                     st1)
          \<and> (\<not> accepted sm \<longrightarrow> dropped)
          \<and> (req_signature sm = None \<or> req_signature sm = Some [] \<longrightarrow> dropped))"
  unfolding mac_def st1_def dropped_def accepted_def
  by (auto simp add: on_message_def handle_payload_def Let_def)

text \<open>Whatever the signature function is: two frame texts that parse to the same signed
  request are both handed to the handler.\<close>

lemma frame_text_read_through_parse:
  assumes "JSON_parse pf data = Inr sm" and "JSON_parse pf data' = Inr sm"
    and "req_payload sm = Request req"
    and "getMessageSignature pf (stringify_request pf (req_payload sm)) secret \<noteq> []"
    and "req_signature sm
           = Some (getMessageSignature pf (stringify_request pf (req_payload sm)) secret)"
  shows "on_message pf secret port data st
           = handleDecodedMessage pf secret port req
               (emit (Console_log [Str ''Message from server:'', Str data]) st)"
    and "on_message pf secret port data' st
           = handleDecodedMessage pf secret port req
               (emit (Console_log [Str ''Message from server:'', Str data']) st)"
  using assms by (simp_all add: on_message_def handle_payload_def Let_def)

text \<open>Claim C1 as stated fails at a frame whose payload bytes were changed in transit: the
  frame with a space put into its payload is not the frame that was signed, and it is
  accepted and dispatched as that one is.\<close>

theorem inbound_frame_respaced_counterexample:
  "example_frame_respaced \<noteq> example_frame
   \<and> trace (on_message example_platform ''k'' 8081 example_frame example_state)
       = [Console_log [Str ''Message from server:'', Str example_frame],
          Browser_call Tabs_query,
          Socket_send 8081 \<lparr>res_payload = Tabs ''c1'' [], res_signature = ''k:8''\<rparr>]
   \<and> trace (on_message example_platform ''k'' 8081 example_frame_respaced example_state)
       = [Console_log [Str ''Message from server:'', Str example_frame_respaced],
          Browser_call Tabs_query,
          Socket_send 8081 \<lparr>res_payload = Tabs ''c1'' [], res_signature = ''k:8''\<rparr>]"
  by (simp add: on_message_def handle_payload_def Let_def example_JSON_parse example_signatures
        example_frames_differ sendTabs_def sendResourceToServer_open sign_resource_def
        example_simps number_to_string_def digit_chars)

theorem inbound_frame_verification_witness:
  "JSON_parse example_platform example_frame_forged
     = Inr \<lparr>req_payload = Request (Open_tab ''c1'' ''https://example.com/''),
            req_signature = Some ''k:43''\<rparr>
   \<and> getMessageSignature example_platform
        (stringify_request example_platform (Request (Open_tab ''c1'' ''https://example.com/'')))
        ''k'' = ''k:68''
   \<and> trace (on_message example_platform ''k'' 8081 example_frame_forged example_state)
        = [Console_log [Str ''Message from server:'', Str example_frame_forged],
           Console_error [Str ''Invalid message signature'']]
   \<and> browser (on_message example_platform ''k'' 8081 example_frame_forged example_state) = 7
   \<and> JSON_parse example_platform example_frame_unsigned
        = Inr \<lparr>req_payload = Request (Get_tab_list ''c1''), req_signature = None\<rparr>
   \<and> trace (on_message example_platform ''k'' 8081 example_frame_unsigned example_state)
        = [Console_log [Str ''Message from server:'', Str example_frame_unsigned],
           Console_error [Str ''Invalid message signature'']]
   \<and> JSON_parse example_platform example_frame
        = Inr \<lparr>req_payload = Request (Get_tab_list ''c1''), req_signature = Some ''k:43''\<rparr>
   \<and> getMessageSignature example_platform
        (stringify_request example_platform (Request (Get_tab_list ''c1''))) ''k'' = ''k:43''
   \<and> on_message example_platform ''k'' 8081 example_frame example_state
        = handleDecodedMessage example_platform ''k'' 8081 (Get_tab_list ''c1'')
            (emit (Console_log [Str ''Message from server:'', Str example_frame]) example_state)"
  using
    inbound_frame_verification [where pf = example_platform and data = example_frame_forged
      and sm = "\<lparr>req_payload = Request (Open_tab ''c1'' ''https://example.com/''),
                req_signature = Some ''k:43''\<rparr>"
      and secret = "''k''" and port = 8081 and st = example_state]
    inbound_frame_verification [where pf = example_platform and data = example_frame_unsigned
      and sm = "\<lparr>req_payload = Request (Get_tab_list ''c1''), req_signature = None\<rparr>"
      and secret = "''k''" and port = 8081 and st = example_state]
    inbound_frame_verification [where pf = example_platform and data = example_frame
      and sm = "\<lparr>req_payload = Request (Get_tab_list ''c1''), req_signature = Some ''k:43''\<rparr>"
      and secret = "''k''" and port = 8081 and st = example_state
      and req = "Get_tab_list ''c1''"]
  by (simp add: example_JSON_parse example_signatures example_state_simps)

section \<open>The dispatcher\<close>

text \<open>The command \<^verbatim>\<open>group-tabs\<close> of tools.ts has no arm: it reaches the default branch,
  which logs the request, calls no browser primitive and sends nothing.\<close>

lemma group_tabs_unhandled:
  "handleDecodedMessage pf secret port
       (Group_tabs correlationId tabIds isCollapsed groupColor groupTitle) st
     = emit (Console_error [Str ''Invalid message received:'',
               Req (Group_tabs correlationId tabIds isCollapsed groupColor groupTitle)]) st"
  by simp

lemma reorder_loop_sockets [simp]:
  "sockets (reorder_loop pf i tabOrder st) = sockets st"
  by (induction tabOrder arbitrary: i st) (auto split: prod.splits sum.splits)

lemma reorder_loop_trace:
  "trace (reorder_loop pf i tabOrder st)
     = trace st @ concat (map move_events
                      (zip (enumerate i tabOrder) (move_outcomes pf i tabOrder (browser st))))"
proof (induction tabOrder arbitrary: i st)
  case Nil
  show ?case by simp
next
  case (Cons tabId rest)
  obtain r b' where mv: "tabs_move pf tabId i (browser st) = (r, b')"
    by (cases "tabs_move pf tabId i (browser st)")
  show ?case
  proof (cases r)
    case (Inl e)
    with mv Cons.IH show ?thesis by (simp add: move_events_def)
  next
    case (Inr u)
    with mv Cons.IH show ?thesis by (simp add: move_events_def)
  qed
qed

lemma length_move_outcomes [simp]:
  "length (move_outcomes pf i tabOrder b) = length tabOrder"
  by (induction tabOrder arbitrary: i b) simp_all

lemma browser_calls_move_events:
  "length rs = length tabOrder \<Longrightarrow>
   browser_calls (concat (map move_events (zip (enumerate i tabOrder) rs)))
     = map (\<lambda>(newIndex, tabId). Tabs_move tabId newIndex) (enumerate i tabOrder)"
proof (induction tabOrder arbitrary: i rs)
  case Nil
  then show ?case by simp
next
  case (Cons tabId rest)
  then obtain r rs' where rs: "rs = r # rs'" "length rs' = length rest"
    by (cases rs) auto
  with Cons.IH [of rs' "Suc i"] show ?case
    by (cases r) (simp_all add: move_events_def)
qed

lemma results_sent_move_events:
  "results_sent (concat (map move_events xs)) = []"
  by (induction xs) (auto simp add: move_events_def split: sum.splits)

text \<open>What each arm calls, whatever the browser answers.\<close>

lemma arm_calls:
  fixes pf :: "'b platform"
  shows "prefix ''https://'' url \<Longrightarrow>
           browser_calls (trace (handleDecodedMessage pf secret port (Open_tab c url) st))
             = browser_calls (trace st) @ [Tabs_create url]"
    and "browser_calls (trace (handleDecodedMessage pf secret port (Close_tabs c tabIds) st))
             = browser_calls (trace st) @ [Tabs_remove tabIds]"
    and "browser_calls (trace (handleDecodedMessage pf secret port (Get_tab_list c) st))
             = browser_calls (trace st) @ [Tabs_query]"
    and "browser_calls (trace (handleDecodedMessage pf secret port
                                 (Get_browser_recent_history c searchQuery) st))
             = browser_calls (trace st)
                 @ [History_search \<lparr>query_text = (case searchQuery of None \<Rightarrow> [] | Some s \<Rightarrow> s),
                                     maxResults = 200, startTime = 0\<rparr>]"
    and "browser_calls (trace (handleDecodedMessage pf secret port (Get_tab_content c tabId offset) st))
             = browser_calls (trace st) @ [Tabs_executeScript tabId offset]"
    and "browser_calls (trace (handleDecodedMessage pf secret port (Reorder_tabs c tabOrder) st))
             = browser_calls (trace st)
                 @ map (\<lambda>(newIndex, tabId). Tabs_move tabId newIndex) (enumerate 0 tabOrder)"
    and "\<exists>more. browser_calls (trace (handleDecodedMessage pf secret port
                                         (Find_highlight c tabId queryPhrase) st))
             = browser_calls (trace st) @ Find_find queryPhrase tabId True # more"
  by (auto simp add: openUrl_def closeTabs_def sendTabs_def sendRecentHistory_def
        sendTabsContent_def reorderTabs_def findAndHighlightText_def highlightResults_def
        sendResourceToServer_def reorder_loop_trace browser_calls_move_events Let_def
        split: prod.splits sum.splits)


text \<open>
  Claim C2, as amended. While the socket is open: each of the seven kinds \<^verbatim>\<open>open-tab\<close>
  (with an \<^verbatim>\<open>https://\<close> url), \<^verbatim>\<open>close-tabs\<close>, \<^verbatim>\<open>get-tab-list\<close>,
  \<^verbatim>\<open>get-browser-recent-history\<close>, \<^verbatim>\<open>get-tab-content\<close>, \<^verbatim>\<open>reorder-tabs\<close> and
  \<^verbatim>\<open>find-highlight\<close> has an arm that calls its browser primitive. The arm of
  \<^verbatim>\<open>close-tabs\<close> sends nothing. Each other arm sends one resource with the inbound
  correlation id, tagged \<^verbatim>\<open>opened-tab-id\<close>, \<^verbatim>\<open>tabs\<close>, \<^verbatim>\<open>history\<close>,
  \<^verbatim>\<open>tab-content\<close>, \<^verbatim>\<open>tabs-reordered\<close> or \<^verbatim>\<open>find-highlight-result\<close>: \<^verbatim>\<open>reorder-tabs\<close>
  always, the others when the primitive they await succeeds.
\<close>

theorem dispatcher_arms:
  fixes pf :: "'b platform" and secret port c st
  defines "run \<equiv> \<lambda>req. trace (handleDecodedMessage pf secret port req st)"
  assumes sock: "sockets st port = Some OPEN"
  shows "(prefix ''https://'' url \<longrightarrow>
            browser_calls (run (Open_tab c url)) = browser_calls (trace st) @ [Tabs_create url])
       \<and> (prefix ''https://'' url \<and> tabs_create pf url (browser st) = (Inr t, b1) \<longrightarrow>
            results_sent (run (Open_tab c url))
              = results_sent (trace st) @ [(port, Opened_tab_id c (tab_id t))])
       \<and> browser_calls (run (Close_tabs c tabIds)) = browser_calls (trace st) @ [Tabs_remove tabIds]
       \<and> results_sent (run (Close_tabs c tabIds)) = results_sent (trace st)
       \<and> browser_calls (run (Get_tab_list c)) = browser_calls (trace st) @ [Tabs_query]
       \<and> (tabs_query pf (browser st) = (Inr ts, b2) \<longrightarrow>
            results_sent (run (Get_tab_list c)) = results_sent (trace st) @ [(port, Tabs c ts)])
       \<and> browser_calls (run (Get_browser_recent_history c searchQuery))
            = browser_calls (trace st)
                @ [History_search \<lparr>query_text = (case searchQuery of None \<Rightarrow> [] | Some s \<Rightarrow> s),
                                    maxResults = 200, startTime = 0\<rparr>]
       \<and> (history_search pf \<lparr>query_text = (case searchQuery of None \<Rightarrow> [] | Some s \<Rightarrow> s),
                               maxResults = 200, startTime = 0\<rparr> (browser st)
              = (Inr historyItems, b3) \<longrightarrow>
            results_sent (run (Get_browser_recent_history c searchQuery))
              = results_sent (trace st)
                  @ [(port, History c (filter (\<lambda>item. hist_url item \<noteq> None \<and> hist_url item \<noteq> Some [])
                                        historyItems))])
       \<and> browser_calls (run (Get_tab_content c tabId offset))
            = browser_calls (trace st) @ [Tabs_executeScript tabId offset]
       \<and> (tabs_executeScript pf tabId (browser st) = (Inr pg, b4) \<longrightarrow>
            results_sent (run (Get_tab_content c tabId offset))
              = results_sent (trace st) @ [(port, Tab_content tabId c (injected_script offset pg))])
       \<and> browser_calls (run (Reorder_tabs c tabOrder))
            = browser_calls (trace st)
                @ map (\<lambda>(newIndex, tabId). Tabs_move tabId newIndex) (enumerate 0 tabOrder)
       \<and> results_sent (run (Reorder_tabs c tabOrder))
            = results_sent (trace st) @ [(port, Tabs_reordered c tabOrder)]
       \<and> (\<exists>more. browser_calls (run (Find_highlight c tabId queryPhrase))
            = browser_calls (trace st) @ Find_find queryPhrase tabId True # more)
       \<and> (find_find pf queryPhrase tabId True (browser st) = (Inr n, b5)
            \<and> (0 < n \<longrightarrow> (\<exists>u b6. tabs_update_active pf tabId b5 = (Inr u, b6))) \<longrightarrow>
            results_sent (run (Find_highlight c tabId queryPhrase))
              = results_sent (trace st) @ [(port, Find_highlight_result c n)])"
proof -
  have opened: "prefix ''https://'' url \<and> tabs_create pf url (browser st) = (Inr t, b1) \<longrightarrow>
      results_sent (run (Open_tab c url))
        = results_sent (trace st) @ [(port, Opened_tab_id c (tab_id t))]"
    unfolding run_def using sock by (simp add: openUrl_def sendResourceToServer_open)
  have closed: "results_sent (run (Close_tabs c tabIds)) = results_sent (trace st)"
    unfolding run_def by (simp add: closeTabs_def split: prod.splits sum.splits)
  have listed: "tabs_query pf (browser st) = (Inr ts, b2) \<longrightarrow>
      results_sent (run (Get_tab_list c)) = results_sent (trace st) @ [(port, Tabs c ts)]"
    unfolding run_def using sock by (simp add: sendTabs_def sendResourceToServer_open)
  have history: "history_search pf \<lparr>query_text = (case searchQuery of None \<Rightarrow> [] | Some s \<Rightarrow> s),
                               maxResults = 200, startTime = 0\<rparr> (browser st)
              = (Inr historyItems, b3) \<longrightarrow>
      results_sent (run (Get_browser_recent_history c searchQuery))
        = results_sent (trace st)
            @ [(port, History c (filter (\<lambda>item. hist_url item \<noteq> None \<and> hist_url item \<noteq> Some [])
                                  historyItems))]"
    unfolding run_def using sock
    by (simp add: sendRecentHistory_def sendResourceToServer_open Let_def)
  have content: "tabs_executeScript pf tabId (browser st) = (Inr pg, b4) \<longrightarrow>
      results_sent (run (Get_tab_content c tabId offset))
        = results_sent (trace st) @ [(port, Tab_content tabId c (injected_script offset pg))]"
    unfolding run_def using sock by (simp add: sendTabsContent_def sendResourceToServer_open)
  have reordered: "results_sent (run (Reorder_tabs c tabOrder))
      = results_sent (trace st) @ [(port, Tabs_reordered c tabOrder)]"
    unfolding run_def using sock
    by (simp add: reorderTabs_def sendResourceToServer_open reorder_loop_trace
          results_sent_move_events)
  have found: "find_find pf queryPhrase tabId True (browser st) = (Inr n, b5)
            \<and> (0 < n \<longrightarrow> (\<exists>u b6. tabs_update_active pf tabId b5 = (Inr u, b6))) \<longrightarrow>
      results_sent (run (Find_highlight c tabId queryPhrase))
        = results_sent (trace st) @ [(port, Find_highlight_result c n)]"
    unfolding run_def using sock
    by (auto simp add: findAndHighlightText_def highlightResults_def sendResourceToServer_open
          Let_def split: prod.splits sum.splits)
  show ?thesis
    using opened closed listed history content reordered found
      arm_calls [where pf = pf and secret = secret and port = port and c = c and st = st]
    unfolding run_def by simp
qed

text \<open>Claim C2 as stated fails at \<^verbatim>\<open>close-tabs\<close>: the socket is open, the tab is closed,
  and no resource is sent.\<close>

theorem dispatcher_arms_counterexample:
  "sockets example_state 8081 = Some OPEN
   \<and> trace (handleDecodedMessage example_platform ''k'' 8081 (Close_tabs ''c2'' [3]) example_state)
       = [Browser_call (Tabs_remove [3]), Console_log [Str ''Successfully closed 1 tabs'']]
   \<and> results_sent
       (trace (handleDecodedMessage example_platform ''k'' 8081 (Close_tabs ''c2'' [3]) example_state))
       = []"
  by (simp add: closeTabs_def example_simps number_to_string_def digit_chars)

theorem dispatcher_arms_witness:
  "sockets example_state 8081 = Some OPEN
   \<and> tabs_query example_platform (browser example_state) = (Inr [], 7)
   \<and> results_sent (trace (handleDecodedMessage example_platform ''k'' 8081 (Get_tab_list ''c1'')
                             example_state))
       = [(8081, Tabs ''c1'' [])]
   \<and> results_sent (trace (handleDecodedMessage example_platform ''k'' 8081 (Close_tabs ''c1'' [3])
                             example_state))
       = []
   \<and> results_sent (trace (handleDecodedMessage example_platform ''k'' 8081
                             (Reorder_tabs ''c1'' [3, - 1]) example_state))
       = [(8081, Tabs_reordered ''c1'' [3, - 1])]"
proof -
  have sock: "sockets example_state 8081 = Some OPEN"
    by (simp add: example_simps)
  from dispatcher_arms [OF sock, where pf = example_platform and ts = "[]" and ?b2.0 = 7
      and c = "''c1''" and secret = "''k''" and tabIds = "[3]" and tabOrder = "[3, - 1]"]
  show ?thesis
    by (simp add: example_simps)
qed

section \<open>Closing tabs\<close>

text \<open>
  Claim C3, as amended. For a \<^verbatim>\<open>close-tabs\<close> command the agent passes the whole list of
  tab ids to one call of \<^verbatim>\<open>browser.tabs.remove\<close>. Whether the call succeeds or fails, the
  agent only logs the outcome (the failure is caught), and it sends no resource back.
\<close>

theorem close_tabs_no_result:
  fixes pf :: "'b platform" and secret port correlationId tabIds st
  defines "st' \<equiv> handleDecodedMessage pf secret port (Close_tabs correlationId tabIds) st"
  shows "(tabs_remove pf tabIds (browser st) = (Inr u, b') \<longrightarrow>
            trace st' = trace st @ [Browser_call (Tabs_remove tabIds),
                          Console_log [Str (''Successfully closed ''
                            @ number_to_string (int (length tabIds)) @ '' tabs'')]]
            \<and> browser st' = b')
       \<and> (tabs_remove pf tabIds (browser st) = (Inl e, b') \<longrightarrow>
            trace st' = trace st @ [Browser_call (Tabs_remove tabIds),
                          Console_error [Str (''Error closing tabs: '' @ error_to_string e)]]
            \<and> browser st' = b')
       \<and> sockets st' = sockets st
       \<and> results_sent (trace st') = results_sent (trace st)"
  unfolding st'_def
  by (auto simp add: closeTabs_def split: sum.splits prod.splits)

text \<open>Claim C3 as stated fails: with the socket open, nothing is sent when every tab is
  closed, and nothing when the batch fails.\<close>

theorem close_tabs_result_counterexample:
  "sockets example_state 8081 = Some OPEN
   \<and> results_sent
       (trace (handleDecodedMessage example_platform ''k'' 8081 (Close_tabs ''c1'' [1, 2]) example_state))
       = []
   \<and> trace (handleDecodedMessage example_platform ''k'' 8081 (Close_tabs ''c1'' [1, - 2]) example_state)
       = [Browser_call (Tabs_remove [1, - 2]),
          Console_error [Str ''Error closing tabs: Error: Invalid tab ID'']]"
  by (simp add: closeTabs_def example_simps number_to_string_def error_to_string_def digit_chars)

theorem close_tabs_no_result_witness:
  "tabs_remove example_platform [1, - 2] (browser example_state)
     = (Inl (JsError ''Error: Invalid tab ID''), 7)
   \<and> trace (handleDecodedMessage example_platform ''k'' 8081 (Close_tabs ''c1'' [1, - 2]) example_state)
       = [Browser_call (Tabs_remove [1, - 2]),
          Console_error [Str ''Error closing tabs: Error: Invalid tab ID'']]
   \<and> browser (handleDecodedMessage example_platform ''k'' 8081 (Close_tabs ''c1'' [1, - 2])
                 example_state) = 7"
  using close_tabs_no_result [where pf = example_platform and tabIds = "[1, - 2]"
      and st = example_state and e = "JsError ''Error: Invalid tab ID''" and b' = 7
      and secret = "''k''" and port = 8081 and correlationId = "''c1''"]
  by (simp add: example_simps error_to_string_def)

section \<open>Opening a tab\<close>

text \<open>
  Claim C5, as amended. For an \<^verbatim>\<open>open-tab\<close> command whose url does not start with
  \<^verbatim>\<open>https://\<close> the agent logs the url and does nothing else: no browser call, nothing
  sent. For one whose url starts with \<^verbatim>\<open>https://\<close> the agent calls
  \<^verbatim>\<open>browser.tabs.create\<close> with the url. When the call gives the tab \<open>t\<close> and the socket is
  open, the agent sends one \<^verbatim>\<open>opened-tab-id\<close> resource with the id of \<open>t\<close> and the
  correlation id of the command; when the call gives the tab and the socket is not open, the
  agent logs that and sends nothing.
\<close>

theorem open_tab_https_only:
  fixes pf :: "'b platform" and secret port correlationId url st
  defines "st' \<equiv> handleDecodedMessage pf secret port (Open_tab correlationId url) st"
  shows "(\<not> prefix ''https://'' url \<longrightarrow>
            trace st' = trace st @ [Console_error [Str ''Invalid URL:'', Str url]]
            \<and> browser st' = browser st \<and> sockets st' = sockets st)
       \<and> (prefix ''https://'' url \<longrightarrow>
            browser_calls (trace st') = browser_calls (trace st) @ [Tabs_create url])
       \<and> (prefix ''https://'' url \<and> tabs_create pf url (browser st) = (Inr t, b')
            \<and> sockets st port = Some OPEN \<longrightarrow>
            trace st' = trace st @ [Browser_call (Tabs_create url),
                          Socket_send port
                            \<lparr>res_payload = Opened_tab_id correlationId (tab_id t),
                             res_signature = getMessageSignature pf
                               (stringify_resource pf (Opened_tab_id correlationId (tab_id t)))
                               secret\<rparr>]
            \<and> results_sent (trace st')
                = results_sent (trace st) @ [(port, Opened_tab_id correlationId (tab_id t))]
            \<and> browser st' = b' \<and> sockets st' = sockets st)
       \<and> (prefix ''https://'' url \<and> tabs_create pf url (browser st) = (Inr t, b')
            \<and> sockets st port \<noteq> Some OPEN \<longrightarrow>
            trace st' = trace st @ [Browser_call (Tabs_create url),
                          Console_error [Str ''Socket is not open'']]
            \<and> results_sent (trace st') = results_sent (trace st)
            \<and> browser st' = b' \<and> sockets st' = sockets st)"
  unfolding st'_def
  by (auto simp add: openUrl_def sendResourceToServer_def sign_resource_def
        split: prod.splits sum.splits)

text \<open>Claim C5 as stated fails when the socket is not open: the url starts with
  \<^verbatim>\<open>https://\<close>, the tab is created, and no resource is sent.\<close>

theorem open_tab_result_counterexample:
  "prefix ''https://'' ''https://example.com/''
   \<and> sockets example_state 8082 = Some CLOSED
   \<and> trace (handleDecodedMessage example_platform ''k'' 8082
              (Open_tab ''c1'' ''https://example.com/'') example_state)
       = [Browser_call (Tabs_create ''https://example.com/''),
          Console_error [Str ''Socket is not open'']]
   \<and> results_sent (trace (handleDecodedMessage example_platform ''k'' 8082
                             (Open_tab ''c1'' ''https://example.com/'') example_state))
       = []"
  by (simp add: openUrl_def sendResourceToServer_not_open example_simps)

theorem open_tab_https_only_witness:
  "\<not> prefix ''https://'' ''http://example.com/''
   \<and> trace (handleDecodedMessage example_platform ''k'' 8081 (Open_tab ''c1'' ''http://example.com/'')
              example_state)
       = [Console_error [Str ''Invalid URL:'', Str ''http://example.com/'']]
   \<and> prefix ''https://'' ''https://example.com/''
   \<and> tabs_create example_platform ''https://example.com/'' (browser example_state)
       = (Inr \<lparr>tab_id = Some 7, tab_url = Some ''https://example.com/'', tab_title = None\<rparr>, 8)
   \<and> sockets example_state 8081 = Some OPEN
   \<and> results_sent (trace (handleDecodedMessage example_platform ''k'' 8081
                             (Open_tab ''c1'' ''https://example.com/'') example_state))
       = [(8081, Opened_tab_id ''c1'' (Some 7))]
   \<and> browser (handleDecodedMessage example_platform ''k'' 8081
                 (Open_tab ''c1'' ''https://example.com/'') example_state) = 8
   \<and> sockets example_state 8082 \<noteq> Some OPEN
   \<and> results_sent (trace (handleDecodedMessage example_platform ''k'' 8082
                             (Open_tab ''c1'' ''https://example.com/'') example_state))
       = []"
  using
    open_tab_https_only [where pf = example_platform and url = "''http://example.com/''"
      and st = example_state and secret = "''k''" and port = 8081 and correlationId = "''c1''"]
    open_tab_https_only [where pf = example_platform and url = "''https://example.com/''"
      and st = example_state and secret = "''k''" and port = 8081 and correlationId = "''c1''"
      and t = "\<lparr>tab_id = Some 7, tab_url = Some ''https://example.com/'', tab_title = None\<rparr>"
      and b' = 8]
    open_tab_https_only [where pf = example_platform and url = "''https://example.com/''"
      and st = example_state and secret = "''k''" and port = 8082 and correlationId = "''c1''"
      and t = "\<lparr>tab_id = Some 7, tab_url = Some ''https://example.com/'', tab_title = None\<rparr>"
      and b' = 8]
  by (simp add: example_simps)

text \<open>Outside the cases of the claim: a tab that cannot be created leaves a rejected
  promise and no reply.\<close>

lemma open_tab_create_fails:
  "prefix ''https://'' url \<Longrightarrow> tabs_create pf url (browser st) = (Inl e, b') \<Longrightarrow>
   trace (handleDecodedMessage pf secret port (Open_tab correlationId url) st)
     = trace st @ [Browser_call (Tabs_create url), Unhandled_rejection e]"
  by (simp add: openUrl_def)

section \<open>History\<close>

text \<open>
  Claim C10. For a \<^verbatim>\<open>get-browser-recent-history\<close> command the agent asks
  \<^verbatim>\<open>browser.history.search\<close> for at most 200 items whose text matches the search query,
  the empty string when the command has none. When the search gives \<open>historyItems\<close>, and it
  gives no more than it is asked for, and the socket is open, the agent sends one
  \<^verbatim>\<open>history\<close> resource: it has at most 200 items, every one with a url that is defined
  and not empty. A command without a search query does what a command with the empty query
  does.
\<close>

theorem history_result_bounded:
  fixes pf :: "'b platform" and secret port correlationId searchQuery st
  defines "st' \<equiv> handleDecodedMessage pf secret port
                    (Get_browser_recent_history correlationId searchQuery) st"
  defines "q \<equiv> \<lparr>query_text = (case searchQuery of None \<Rightarrow> [] | Some s \<Rightarrow> s),
                 maxResults = 200, startTime = 0\<rparr>"
  defines "sent \<equiv> filter (\<lambda>item. hist_url item \<noteq> None \<and> hist_url item \<noteq> Some [])"
  assumes limit: "\<forall>query b found b'. history_search pf query b = (Inr found, b')
                    \<longrightarrow> length found \<le> maxResults query"
    and found: "history_search pf q (browser st) = (Inr historyItems, b')"
    and sock: "sockets st port = Some OPEN"
  shows "trace st' = trace st @ [Browser_call (History_search q),
                        Socket_send port (sign_resource pf secret
                          (History correlationId (sent historyItems)))]
       \<and> length (sent historyItems) \<le> 200
       \<and> (\<forall>item \<in> set (sent historyItems). \<exists>u. hist_url item = Some u \<and> u \<noteq> [])
       \<and> handleDecodedMessage pf secret port (Get_browser_recent_history correlationId None) st
          = handleDecodedMessage pf secret port (Get_browser_recent_history correlationId (Some [])) st"
proof -
  have "length historyItems \<le> maxResults q"
    using limit found by blast
  then have len: "length (sent historyItems) \<le> 200"
    unfolding sent_def q_def
    by (simp add: le_trans [OF length_filter_le])
  have tr: "trace st' = trace st @ [Browser_call (History_search q),
                        Socket_send port (sign_resource pf secret
                          (History correlationId (sent historyItems)))]"
    using found sock unfolding st'_def q_def sent_def
    by (simp add: sendRecentHistory_def sendResourceToServer_open Let_def)
  have urls: "\<forall>item \<in> set (sent historyItems). \<exists>u. hist_url item = Some u \<and> u \<noteq> []"
    unfolding sent_def by auto
  have same: "handleDecodedMessage pf secret port (Get_browser_recent_history correlationId None) st
          = handleDecodedMessage pf secret port (Get_browser_recent_history correlationId (Some [])) st"
    by (simp add: sendRecentHistory_def)
  from tr len urls same show ?thesis by blast
qed

theorem history_result_bounded_witness:
  "results_sent (trace (handleDecodedMessage example_platform ''k'' 8081
                          (Get_browser_recent_history ''c1'' None) example_state))
     = [(8081, History ''c1'' [\<lparr>hist_url = Some ''https://example.com/'',
                                hist_title = Some ''Example''\<rparr>])]"
proof -
  have limit: "\<forall>query b found b'. history_search example_platform query b = (Inr found, b')
                 \<longrightarrow> length found \<le> maxResults query"
    by (auto simp add: example_simps)
  have found: "history_search example_platform
                 \<lparr>query_text = (case None of None \<Rightarrow> [] | Some s \<Rightarrow> s), maxResults = 200,
                  startTime = 0\<rparr> (browser example_state)
               = (Inr example_history, 7)"
    by (simp add: example_simps example_history_def)
  have sock: "sockets example_state 8081 = Some OPEN"
    by (simp add: example_simps)
  from history_result_bounded [OF limit found sock, where secret = "''k''"
      and correlationId = "''c1''", THEN conjunct1]
  show ?thesis
    by (simp add: example_simps example_history_def)
qed

section \<open>Links and the pages of a text\<close>

text \<open>
  Claim C6, as amended. The script the agent injects extracts the links at every offset, and
  the \<^verbatim>\<open>tab-content\<close> resource carries them at every offset. The tool
  \<^verbatim>\<open>get-tab-web-content\<close> of the server puts the links into its answer when the offset
  of the call is 0 and leaves them out at every other offset.
\<close>

theorem links_at_every_offset:
  fixes pf :: "'b platform" and secret port correlationId tabId offset st
  defines "st' \<equiv> handleDecodedMessage pf secret port (Get_tab_content correlationId tabId offset) st"
  shows "links (injected_script offset pg) = getLinks pg
       \<and> (tabs_executeScript pf tabId (browser st) = (Inr pg, b') \<and> sockets st port = Some OPEN \<longrightarrow>
            trace st' = trace st @ [Browser_call (Tabs_executeScript tabId offset),
                          Socket_send port (sign_resource pf secret
                            (Tab_content tabId correlationId (injected_script offset pg)))])
       \<and> get_tab_web_content 0 content
            = truncation_hint 0 content @ [fullText content] @ map link_item (links content)
       \<and> (toolOffset \<noteq> 0 \<longrightarrow>
            get_tab_web_content toolOffset content
              = truncation_hint toolOffset content @ [fullText content])"
  unfolding st'_def
  by (simp add: injected_script_def sendTabsContent_def sendResourceToServer_open
        get_tab_web_content_def Let_def)

lemma getLinks_example_page:
  "getLinks example_page = [\<lparr>link_url = ''https://example.com/a'', link_text = ''A''\<rparr>]"
  by (simp add: getLinks_def example_page_def trim_def or_else_def is_whitespace_examples)

lemma injected_script_example_page:
  "injected_script (Some 5) example_page
     = \<lparr>links = [\<lparr>link_url = ''https://example.com/a'', link_text = ''A''\<rparr>],
        fullText = '' world'', isTruncated = False, totalLength = 11\<rparr>"
  by (simp add: injected_script_def getLinks_example_page getTextContent_cases offset_or_zero_def
        MAX_CONTENT_LENGTH_def)
     (simp add: example_page_def)

text \<open>Claim C6 as stated fails at the offset 5: the links are extracted and the resource
  carries them.\<close>

theorem links_at_offset_counterexample:
  "sockets example_state 8081 = Some OPEN
   \<and> results_sent (trace (handleDecodedMessage example_platform ''k'' 8081
                             (Get_tab_content ''c1'' 1 (Some 5)) example_state))
       = [(8081, Tab_content 1 ''c1''
                   \<lparr>links = [\<lparr>link_url = ''https://example.com/a'', link_text = ''A''\<rparr>],
                      fullText = '' world'', isTruncated = False, totalLength = 11\<rparr>)]"
  by (simp add: sendTabsContent_def sendResourceToServer_open example_simps
        injected_script_example_page)

theorem links_at_every_offset_witness:
  "tabs_executeScript example_platform 1 (browser example_state) = (Inr example_page, 7)
   \<and> sockets example_state 8081 = Some OPEN
   \<and> results_sent (trace (handleDecodedMessage example_platform ''k'' 8081
                             (Get_tab_content ''c1'' 1 (Some 5)) example_state))
       = [(8081, Tab_content 1 ''c1'' (injected_script (Some 5) example_page))]
   \<and> (5::int) \<noteq> 0
   \<and> get_tab_web_content 5 (injected_script (Some 5) example_page)
       = truncation_hint 5 (injected_script (Some 5) example_page) @ ['' world'']"
proof -
  have slice: "fullText (injected_script (Some 5) example_page) = '' world''"
    by (simp add: injected_script_example_page)
  from links_at_every_offset [where pf = example_platform and tabId = 1 and st = example_state
      and pg = example_page and b' = 7 and port = 8081 and secret = "''k''"
      and correlationId = "''c1''" and offset = "Some 5" and toolOffset = 5
      and content = "injected_script (Some 5) example_page", THEN conjunct2]
  show ?thesis
    by (simp add: example_simps slice)
qed

section \<open>Highlighting\<close>



text \<open>An activation that fails is outside the cases of the claim: nothing is highlighted
  and there is no reply.\<close>

lemma find_highlight_activation_fails:
  "0 < n \<Longrightarrow> find_find pf queryPhrase tabId True (browser st) = (Inr n, b1) \<Longrightarrow>
   tabs_update_active pf tabId b1 = (Inl e, b2) \<Longrightarrow>
   trace (handleDecodedMessage pf secret port (Find_highlight correlationId tabId queryPhrase) st)
     = trace st @ [Browser_call (Find_find queryPhrase tabId True),
                   Browser_call (Tabs_update_active tabId), Unhandled_rejection e]"
  by (simp add: findAndHighlightText_def Let_def)


section \<open>Reordering\<close>

text \<open>
  Claim C8, as amended. For a \<^verbatim>\<open>reorder-tabs\<close> command, whatever the browser answers to
  the moves: the trace grows by one batch and then by the reply. The batch holds, for the
  tab ids in the order given, the move of each id to its index \<open>0, 1, 2, \<dots>\<close>, each failed
  move followed by its logged error; every tab id is moved, also after a failure, and nothing
  is sent within the batch. The reply, on an open socket, is one \<^verbatim>\<open>tabs-reordered\<close>
  resource with the requested \<open>tabOrder\<close> and the correlation id of the command; on a socket
  that is not open the agent logs that and sends nothing.
\<close>

theorem reorder_tabs_batch:
  fixes pf :: "'b platform" and secret port correlationId tabOrder st
  defines "st' \<equiv> handleDecodedMessage pf secret port (Reorder_tabs correlationId tabOrder) st"
  defines "batch \<equiv> concat (map move_events
                      (zip (enumerate 0 tabOrder) (move_outcomes pf 0 tabOrder (browser st))))"
  shows "(sockets st port = Some OPEN \<longrightarrow>
            trace st' = trace st @ batch
                          @ [Socket_send port
                               \<lparr>res_payload = Tabs_reordered correlationId tabOrder,
                                res_signature = getMessageSignature pf
                                  (stringify_resource pf (Tabs_reordered correlationId tabOrder))
                                  secret\<rparr>]
            \<and> results_sent (trace st')
                = results_sent (trace st) @ [(port, Tabs_reordered correlationId tabOrder)])
       \<and> (sockets st port \<noteq> Some OPEN \<longrightarrow>
            trace st' = trace st @ batch @ [Console_error [Str ''Socket is not open'']]
            \<and> results_sent (trace st') = results_sent (trace st))
       \<and> length (move_outcomes pf 0 tabOrder (browser st)) = length tabOrder
       \<and> browser_calls batch
            = map (\<lambda>(newIndex, tabId). Tabs_move tabId newIndex) (enumerate 0 tabOrder)
       \<and> results_sent batch = []"
  unfolding st'_def batch_def
  by (simp add: reorderTabs_def sendResourceToServer_open sendResourceToServer_not_open
        sign_resource_def reorder_loop_trace browser_calls_move_events results_sent_move_events)

text \<open>Claim C8 as stated fails when the socket is not open: the tabs are moved and no
  resource is sent.\<close>

theorem reorder_tabs_result_counterexample:
  "sockets example_state 8082 = Some CLOSED
   \<and> trace (handleDecodedMessage example_platform ''k'' 8082 (Reorder_tabs ''c1'' [3, 12])
              example_state)
       = [Browser_call (Tabs_move 3 0), Browser_call (Tabs_move 12 1),
          Console_error [Str ''Socket is not open'']]
   \<and> results_sent (trace (handleDecodedMessage example_platform ''k'' 8082
                             (Reorder_tabs ''c1'' [3, 12]) example_state))
       = []"
  by (simp add: reorderTabs_def sendResourceToServer_not_open example_simps)

theorem reorder_tabs_batch_witness:
  "sockets example_state 8081 = Some OPEN
   \<and> trace (handleDecodedMessage example_platform ''k'' 8081 (Reorder_tabs ''c1'' [3, - 1, 12])
              example_state)
       = [Browser_call (Tabs_move 3 0),
          Browser_call (Tabs_move (- 1) 1),
          Console_error [Str ''Error moving tab -1: Error: Invalid tab ID''],
          Browser_call (Tabs_move 12 2),
          Socket_send 8081
            \<lparr>res_payload = Tabs_reordered ''c1'' [3, - 1, 12], res_signature = ''k:8''\<rparr>]
   \<and> sockets example_state 8082 \<noteq> Some OPEN
   \<and> results_sent (trace (handleDecodedMessage example_platform ''k'' 8082
                             (Reorder_tabs ''c1'' [3, - 1, 12]) example_state))
       = []"
  using
    reorder_tabs_batch [where pf = example_platform and tabOrder = "[3, - 1, 12]"
      and secret = "''k''" and correlationId = "''c1''" and st = example_state and port = 8081]
    reorder_tabs_batch [where pf = example_platform and tabOrder = "[3, - 1, 12]"
      and secret = "''k''" and correlationId = "''c1''" and st = example_state and port = 8082]
  by (simp add: example_simps move_events_def number_to_string_def error_to_string_def
        digit_chars)

section \<open>Retrying the connection\<close>

text \<open>
  Claim C9. The client of a port registers its retry with an interval of 2000 ms, one for
  each port of \<open>WS_PORTS\<close>. At an expiry, a client whose socket is absent or closed opens a
  new socket, whatever happened before: after \<open>n\<close> expiries that each found the socket
  closed, the client has made \<open>n\<close> more connection attempts, for every \<open>n\<close>. The expiry of one
  port's timer reads and changes the socket of that port only.
\<close>

theorem retry_unconditional:
  fixes st :: "'b extension"
  shows "RETRY_INTERVAL_MS = 2000
       \<and> (sockets st port = None \<or> sockets st port = Some CLOSED \<longrightarrow>
            sockets (retry_tick port st) port = Some CONNECTING
            \<and> trace (retry_tick port st)
                = trace st @ [Console_log [Str ''Connecting to WebSocket server''], WebSocket_new port])
       \<and> (\<forall>other. other \<noteq> port \<longrightarrow> sockets (retry_tick port st) other = sockets st other)
       \<and> (sockets st port = None \<or> sockets st port = Some CLOSED \<longrightarrow>
            connection_attempts port (trace (failed_rounds n port st))
              = connection_attempts port (trace st) + n)
       \<and> (secret \<noteq> [] \<longrightarrow>
            timers (trace (startup (Inr (Some secret)) st))
              = timers (trace st) @ [(8081, RETRY_INTERVAL_MS), (8082, RETRY_INTERVAL_MS)])"
proof -
  have tick: "sockets s port = None \<or> sockets s port = Some CLOSED \<Longrightarrow>
      retry_tick port s = connectWebSocket port s" for s :: "'b extension"
    by (simp add: retry_tick_def)
  have conn_tr: "trace (connectWebSocket p s)
      = trace s @ [Console_log [Str ''Connecting to WebSocket server''], WebSocket_new p]"
    for p and s :: "'b extension"
    by (simp add: connectWebSocket_def)
  have conn_so: "sockets (connectWebSocket p s) = (sockets s)(p := Some CONNECTING)"
    for p and s :: "'b extension"
    by (simp add: connectWebSocket_def)
  have rounds: "sockets s port = None \<or> sockets s port = Some CLOSED \<Longrightarrow>
      connection_attempts port (trace (failed_rounds k port s))
        = connection_attempts port (trace s) + k" for k and s :: "'b extension"
  proof (induction k arbitrary: s)
    case 0
    show ?case by simp
  next
    case (Suc k)
    let ?s = "socket_closed port (retry_tick port s)"
    have closed: "sockets ?s port = Some CLOSED"
      by (simp add: socket_closed_def)
    have "trace ?s = trace s @ [Console_log [Str ''Connecting to WebSocket server''], WebSocket_new port]"
      using Suc.prems by (simp add: socket_closed_def tick conn_tr)
    then have "connection_attempts port (trace ?s) = connection_attempts port (trace s) + 1"
      by (simp add: connection_attempts_def)
    with Suc.IH [of ?s] closed show ?case by simp
  qed
  have other: "\<forall>other. other \<noteq> port \<longrightarrow> sockets (retry_tick port st) other = sockets st other"
    by (simp add: retry_tick_def conn_so)
  have start: "secret \<noteq> [] \<longrightarrow>
            timers (trace (startup (Inr (Some secret)) st))
              = timers (trace st) @ [(8081, RETRY_INTERVAL_MS), (8082, RETRY_INTERVAL_MS)]"
    by (simp add: startup_def WS_PORTS_def initWsClient_def conn_tr)
  show ?thesis
    using tick [of st] conn_tr [of port st] conn_so [of port st] rounds [of st n] other start
    by (simp add: RETRY_INTERVAL_MS_def)
qed

theorem retry_unconditional_witness:
  "sockets example_state 8082 = Some CLOSED
   \<and> sockets (retry_tick 8082 example_state) 8082 = Some CONNECTING
   \<and> sockets (retry_tick 8082 example_state) 8081 = Some OPEN
   \<and> connection_attempts 8082 (trace (failed_rounds 3 8082 example_state)) = 3
   \<and> timers (trace (startup (Inr (Some ''k'')) example_state)) = [(8081, 2000), (8082, 2000)]"
  using retry_unconditional [where st = example_state and port = 8082 and n = 3
      and secret = "''k''"]
  by (simp add: example_simps RETRY_INTERVAL_MS_def connection_attempts_def)


end
